theory Spec2Isabelle
  imports Main "HOL-Library.Sublist"
begin

section \<open>The user profile component (src/components/UserProfile/index.tsx)\<close>

text \<open>
  A shallow embedding of the profile component: the form schema, the submit and cancel
  handlers, the effect that stages a picked image, and the filter that selects the
  current user's lost and found items.

  Strings are HOL strings. A character stands for one UTF-16 code unit below 256, so
  \<open>length\<close> is the \<^verbatim>\<open>length\<close> of the JavaScript string.
\<close>

subsection \<open>Data\<close>

text \<open>A browser \<^verbatim>\<open>File\<close>: its name and its MIME type. A \<^verbatim>\<open>FileList\<close> is a list of files.\<close>

record File =
  fileName :: string
  fileType :: string

text \<open>\<^verbatim>\<open>ProfileFormData\<close>, the values of the form (lines 25 to 32).\<close>

record ProfileFormData =
  form_email :: string
  form_userName :: string
  form_password :: string
  form_profileImage :: "File list option"

text \<open>\<^verbatim>\<open>UserData\<close> (lines 34 to 42). An optional field is an option; \<open>uid\<close> is \<^verbatim>\<open>_id\<close>.\<close>

record UserData =
  uid :: "string option"
  email :: string
  userName :: string
  password :: "string option"
  imgURL :: "string option"
  accessToken :: "string option"
  refreshToken :: "string option"

text \<open>
  \<^verbatim>\<open>Partial<UserData>\<close>, the object \<^verbatim>\<open>updatedUserData\<close> of the submit handler: each key
  is present (\<open>Some\<close>) or absent (\<open>None\<close>).
\<close>

record PartialUserData =
  upd_uid :: "string option"
  upd_email :: "string option"
  upd_userName :: "string option"
  upd_password :: "string option"
  upd_imgURL :: "string option"
  upd_accessToken :: "string option"
  upd_refreshToken :: "string option"

datatype fieldName = Email | UserName | Password | ProfileImage | ImgURL | Id | AccessToken | RefreshToken

text \<open>The keys that an update object holds, in the order of the interface.\<close>

definition keysOf :: "PartialUserData \<Rightarrow> fieldName list" where
  "keysOf p =
     (case upd_uid p of None \<Rightarrow> [] | Some _ \<Rightarrow> [Id]) @
     (case upd_email p of None \<Rightarrow> [] | Some _ \<Rightarrow> [Email]) @
     (case upd_userName p of None \<Rightarrow> [] | Some _ \<Rightarrow> [UserName]) @
     (case upd_password p of None \<Rightarrow> [] | Some _ \<Rightarrow> [Password]) @
     (case upd_imgURL p of None \<Rightarrow> [] | Some _ \<Rightarrow> [ImgURL]) @
     (case upd_accessToken p of None \<Rightarrow> [] | Some _ \<Rightarrow> [AccessToken]) @
     (case upd_refreshToken p of None \<Rightarrow> [] | Some _ \<Rightarrow> [RefreshToken])"

subsection \<open>The form schema\<close>

text \<open>
  \<^verbatim>\<open>profileFormSchema\<close> (lines 25 to 30). The result is the list of issues, each a field
  and its message, in the order of the schema's keys; the input is valid when the list is
  empty. The library's email test is the parameter \<open>isEmail\<close>. The key
  \<^verbatim>\<open>profileImage\<close> is \<^verbatim>\<open>z.optional(z.instanceof(FileList))\<close>: an absent value passes, and
  so does every file list, whatever it holds.
\<close>

definition profileFormSchema :: "(string \<Rightarrow> bool) \<Rightarrow> ProfileFormData \<Rightarrow> (fieldName \<times> string) list" where
  "profileFormSchema isEmail data =
     (if isEmail (form_email data) then [] else [(Email, ''Please enter a valid email'')]) @
     (if 3 \<le> length (form_userName data) then []
      else [(UserName, ''Username must be at least 3 characters'')]) @
     (if 8 \<le> length (form_password data) then []
      else [(Password, ''Password must be at least 8 characters'')]) @
     (case form_profileImage data of None \<Rightarrow> [] | Some files \<Rightarrow> [])"

text \<open>The issues of one field.\<close>

definition errorsOf :: "fieldName \<Rightarrow> (fieldName \<times> string) list \<Rightarrow> string list" where
  "errorsOf f issues = map snd (filter (\<lambda>i. fst i = f) issues)"

subsection \<open>The component's state and its collaborators\<close>

text \<open>
  An object URL returned by \<^verbatim>\<open>URL.createObjectURL\<close> is identified by its serial number:
  each call returns a URL that no call before returned, and no object URL is the empty
  string.
\<close>

type_synonym objectURL = nat

text \<open>
  The state hooks of the component (lines 47 to 51) and the values that the form library
  holds for the registered fields.
\<close>

record state =
  isEditing :: bool
  isUploading :: bool
  localUser :: "UserData option"
  selectedImage :: "File option"
  tempImageURL :: "objectURL option"
  formValues :: ProfileFormData

text \<open>
  What the collaborators answer during one submit. \<open>None\<close> is a rejected promise;
  \<open>uploadImage\<close> resolves with the URL of the stored image, \<open>updateUser\<close> with the
  user that the server sends back; \<open>updateAuthState\<close> tells whether the refresh of
  the authentication state resolves.
\<close>

record services =
  uploadImage :: "File \<Rightarrow> string option"
  updateUser :: "string \<Rightarrow> PartialUserData \<Rightarrow> UserData option"
  updateAuthState :: bool

text \<open>The calls that a handler issues to the collaborators, in order.\<close>

datatype call = UploadImage File | UpdateUser string PartialUserData | UpdateAuthState

subsection \<open>The submit handler\<close>

text \<open>
  Lines 108 to 115: the update object before the upload. The password is added when it is
  truthy (not empty) and has at least 8 characters.
\<close>

definition updatedUserData :: "ProfileFormData \<Rightarrow> PartialUserData" where
  "updatedUserData data =
     (let upd = \<lparr>upd_uid = None, upd_email = Some (form_email data),
                 upd_userName = Some (form_userName data), upd_password = None,
                 upd_imgURL = None, upd_accessToken = None, upd_refreshToken = None\<rparr>
      in if form_password data \<noteq> [] \<and> 8 \<le> length (form_password data)
         then upd\<lparr>upd_password := Some (form_password data)\<rparr> else upd)"

text \<open>
  Lines 126 to 130: the object given to \<^verbatim>\<open>setLocalUser\<close>, the spread of the local user and
  then of the update object, with \<^verbatim>\<open>imgURL: updatedUserData.imgURL || localUser.imgURL\<close>.
\<close>

definition mergeUser :: "UserData \<Rightarrow> PartialUserData \<Rightarrow> UserData" where
  "mergeUser lu upd =
     \<lparr>uid = (case upd_uid upd of None \<Rightarrow> uid lu | Some v \<Rightarrow> Some v),
      email = (case upd_email upd of None \<Rightarrow> email lu | Some v \<Rightarrow> v),
      userName = (case upd_userName upd of None \<Rightarrow> userName lu | Some v \<Rightarrow> v),
      password = (case upd_password upd of None \<Rightarrow> password lu | Some v \<Rightarrow> Some v),
      imgURL = (case upd_imgURL upd of None \<Rightarrow> imgURL lu
                | Some v \<Rightarrow> if v \<noteq> [] then Some v else imgURL lu),
      accessToken = (case upd_accessToken upd of None \<Rightarrow> accessToken lu | Some v \<Rightarrow> Some v),
      refreshToken = (case upd_refreshToken upd of None \<Rightarrow> refreshToken lu | Some v \<Rightarrow> Some v)\<rparr>"

text \<open>
  Lines 122 to 139: the update call and what follows it. The response is bound to
  \<^verbatim>\<open>updatedUser\<close> and logged; the state is set from \<^verbatim>\<open>localUser\<close> and
  \<^verbatim>\<open>updatedUserData\<close>. A rejected \<^verbatim>\<open>updateAuthState\<close> is caught after the state was set.
  The \<^verbatim>\<open>finally\<close> block resets \<^verbatim>\<open>isUploading\<close> on every path.
\<close>

definition sendUpdate ::
  "services \<Rightarrow> UserData \<Rightarrow> string \<Rightarrow> PartialUserData \<Rightarrow> call list \<Rightarrow> state \<Rightarrow> state \<times> call list" where
  "sendUpdate svc lu i upd calls s =
     (case updateUser svc i upd of
        None \<Rightarrow> (s\<lparr>isUploading := False\<rparr>, calls @ [UpdateUser i upd])
      | Some updatedUser \<Rightarrow>
          (s\<lparr>localUser := Some (mergeUser lu upd), selectedImage := None,
             tempImageURL := None, isEditing := False, isUploading := False\<rparr>,
           calls @ [UpdateUser i upd, UpdateAuthState]))"

text \<open>
  \<^verbatim>\<open>onSubmit\<close> (lines 102 to 141). The result is the state after the handler and the calls
  it issued. The guard of line 103 returns at once when the local user is \<^verbatim>\<open>null\<close> or
  its \<^verbatim>\<open>_id\<close> is falsy (absent or empty).
\<close>

definition onSubmit :: "services \<Rightarrow> ProfileFormData \<Rightarrow> state \<Rightarrow> state \<times> call list" where
  "onSubmit svc data s =
     (case localUser s of
        None \<Rightarrow> (s, [])
      | Some lu \<Rightarrow>
          (case uid lu of
             None \<Rightarrow> (s, [])
           | Some i \<Rightarrow>
               if i = [] then (s, [])
               else
                 (case selectedImage s of
                    None \<Rightarrow> sendUpdate svc lu i (updatedUserData data) [] s
                  | Some f \<Rightarrow>
                      (case uploadImage svc f of
                         None \<Rightarrow> (s\<lparr>isUploading := False\<rparr>, [UploadImage f])
                       | Some url \<Rightarrow>
                           sendUpdate svc lu i ((updatedUserData data)\<lparr>upd_imgURL := Some url\<rparr>)
                             [UploadImage f] s))))"

text \<open>
  \<^verbatim>\<open>handleSubmit(onSubmit)\<close> (line 277): the form library runs the schema on the form's
  values and calls the handler only when there is no issue.
\<close>

definition handleSubmit :: "(string \<Rightarrow> bool) \<Rightarrow> services \<Rightarrow> state \<Rightarrow> state \<times> call list" where
  "handleSubmit isEmail svc s =
     (if profileFormSchema isEmail (formValues s) = [] then onSubmit svc (formValues s) s
      else (s, []))"

subsection \<open>The effect that follows the current user\<close>

text \<open>
  The effect of lines 75 to 82, run when the authentication hook delivers another
  \<^verbatim>\<open>currentUser\<close>: a user that is not \<^verbatim>\<open>null\<close> becomes the local user and seeds the
  form, with an empty password.
\<close>

definition currentUserEffect :: "UserData option \<Rightarrow> state \<Rightarrow> state" where
  "currentUserEffect currentUser s =
     (case currentUser of
        None \<Rightarrow> s
      | Some cu \<Rightarrow>
          s\<lparr>localUser := Some cu,
            formValues := (formValues s)\<lparr>form_email := email cu,
                                          form_userName := (if userName cu \<noteq> [] then userName cu else []),
                                          form_password := []\<rparr>\<rparr>)"

text \<open>
  A submit of the form and the refresh of the authentication state that the handler
  awaits at line 135. The hook is not part of this file: \<open>refreshed\<close> is the current
  user that it delivers when the refresh resolves, \<open>None\<close> when it delivers none. The
  effect above runs only when the handler asked for the refresh and the refresh resolved.
\<close>

definition submitAndRefresh ::
  "(string \<Rightarrow> bool) \<Rightarrow> services \<Rightarrow> UserData option \<Rightarrow> state \<Rightarrow> state" where
  "submitAndRefresh isEmail svc refreshed s =
     (if UpdateAuthState \<in> set (snd (handleSubmit isEmail svc s)) \<and> updateAuthState svc
      then currentUserEffect refreshed (fst (handleSubmit isEmail svc s))
      else fst (handleSubmit isEmail svc s))"

subsection \<open>Cancel and the edits of the form\<close>

text \<open>\<^verbatim>\<open>handleCancelEdit\<close> (lines 143 to 152).\<close>

definition handleCancelEdit :: "state \<Rightarrow> state" where
  "handleCancelEdit s =
     (let fv = (case localUser s of
                  None \<Rightarrow> formValues s
                | Some lu \<Rightarrow>
                    (formValues s)\<lparr>form_email := email lu,
                                   form_userName := (if userName lu \<noteq> [] then userName lu else []),
                                   form_password := []\<rparr>)
      in s\<lparr>formValues := fv, selectedImage := None, tempImageURL := None, isEditing := False\<rparr>)"

text \<open>
  What the user does in the edit mode: the button of line 327 sets \<^verbatim>\<open>isEditing\<close>, a
  registered input writes its value into the form's values.
\<close>

datatype edit = EditEmail string | EditUserName string | EditPassword string | PickFiles "File list"

fun applyEdit :: "edit \<Rightarrow> state \<Rightarrow> state" where
  "applyEdit (EditEmail v) s = s\<lparr>formValues := (formValues s)\<lparr>form_email := v\<rparr>\<rparr>"
| "applyEdit (EditUserName v) s = s\<lparr>formValues := (formValues s)\<lparr>form_userName := v\<rparr>\<rparr>"
| "applyEdit (EditPassword v) s = s\<lparr>formValues := (formValues s)\<lparr>form_password := v\<rparr>\<rparr>"
| "applyEdit (PickFiles fl) s = s\<lparr>formValues := (formValues s)\<lparr>form_profileImage := Some fl\<rparr>\<rparr>"

definition enterEdit :: "state \<Rightarrow> state" where
  "enterEdit s = s\<lparr>isEditing := True\<rparr>"

subsection \<open>The effect that stages a picked image\<close>

text \<open>
  The component together with what the effect of lines 84 to 94 leaves behind: the
  dependencies of its last run, the cleanup that run returned (\<open>Some t\<close> is the closure
  of lines 90 to 92 with \<^verbatim>\<open>tempImageURL\<close> bound to \<open>t\<close>, the value in the render of that
  run), and the object URLs created and revoked so far.
\<close>

record runtime =
  comp :: state
  lastDeps :: "(File list option \<times> objectURL option) option"
  cleanup :: "objectURL option option"
  created :: "objectURL list"
  revoked :: "objectURL list"

text \<open>
  One commit of a render. An effect with a dependency array runs when a dependency
  differs from the run before; the cleanup of the run before is called first. The effect
  reads \<^verbatim>\<open>watchProfileImage\<close>, the form's value of the image field.
\<close>

definition runCleanup :: "runtime \<Rightarrow> runtime" where
  "runCleanup r =
     (case cleanup r of
        Some (Some u) \<Rightarrow> r\<lparr>cleanup := None, revoked := revoked r @ [u]\<rparr>
      | _ \<Rightarrow> r\<lparr>cleanup := None\<rparr>)"

definition imageEffect :: "runtime \<Rightarrow> runtime" where
  "imageEffect r =
     (let s = comp r; deps = (form_profileImage (formValues s), tempImageURL s) in
      if lastDeps r = Some deps then r
      else
        (let r1 = (runCleanup r)\<lparr>lastDeps := Some deps\<rparr> in
         case form_profileImage (formValues s) of
           Some (f # fs) \<Rightarrow>
             (let u = length (created r1) in
              r1\<lparr>comp := s\<lparr>selectedImage := Some f, tempImageURL := Some u\<rparr>,
                 created := created r1 @ [u],
                 cleanup := Some (tempImageURL s)\<rparr>)
         | _ \<Rightarrow> r1))"

text \<open>The events of a session, and the component mounted for a user.\<close>

datatype event = Edit edit | EnterEdit | Cancel | Submit services | Commit

fun step :: "(string \<Rightarrow> bool) \<Rightarrow> runtime \<Rightarrow> event \<Rightarrow> runtime" where
  "step isEmail r (Edit e) = r\<lparr>comp := applyEdit e (comp r)\<rparr>"
| "step isEmail r EnterEdit = r\<lparr>comp := enterEdit (comp r)\<rparr>"
| "step isEmail r Cancel = r\<lparr>comp := handleCancelEdit (comp r)\<rparr>"
| "step isEmail r (Submit svc) = r\<lparr>comp := fst (handleSubmit isEmail svc (comp r))\<rparr>"
| "step isEmail r Commit = imageEffect r"

definition run :: "(string \<Rightarrow> bool) \<Rightarrow> runtime \<Rightarrow> event list \<Rightarrow> runtime" where
  "run isEmail r evs = foldl (step isEmail) r evs"

definition mounted :: "UserData \<Rightarrow> runtime" where
  "mounted u =
     \<lparr>comp = \<lparr>isEditing = False, isUploading = False, localUser = Some u,
              selectedImage = None, tempImageURL = None,
              formValues = \<lparr>form_email = email u, form_userName = userName u,
                            form_password = [], form_profileImage = None\<rparr>\<rparr>,
      lastDeps = Some (None, None), cleanup = None, created = [], revoked = []\<rparr>"

subsection \<open>JavaScript's string operations\<close>

text \<open>
  A value that is a string or \<^verbatim>\<open>undefined\<close> is a string option. \<open>truthy\<close> is the test
  of \<^verbatim>\<open>if (v)\<close> and \<^verbatim>\<open>!v\<close>, \<open>jsOr\<close> is \<^verbatim>\<open>a || b\<close>, \<open>jsString\<close> is \<^verbatim>\<open>String(v)\<close>.
\<close>

definition truthy :: "string option \<Rightarrow> bool" where
  "truthy v = (case v of None \<Rightarrow> False | Some x \<Rightarrow> x \<noteq> [])"

definition jsOr :: "string option \<Rightarrow> string option \<Rightarrow> string option" where
  "jsOr a b = (if truthy a then a else b)"

definition jsString :: "string option \<Rightarrow> string" where
  "jsString v = (case v of None \<Rightarrow> ''undefined'' | Some x \<Rightarrow> x)"

text \<open>
  \<^verbatim>\<open>toLowerCase\<close> on code units below 256: the letters A to Z, and the capital letters of
  the Latin-1 block (192 to 222 but the multiplication sign 215), move up by 32.
\<close>

definition lowerChar :: "char \<Rightarrow> char" where
  "lowerChar c =
     (let n = (of_char c :: nat) in
      if (65 \<le> n \<and> n \<le> 90) \<or> (192 \<le> n \<and> n \<le> 222 \<and> n \<noteq> 215) then char_of (n + 32) else c)"

definition toLowerCase :: "string \<Rightarrow> string" where
  "toLowerCase x = map lowerChar x"

text \<open>
  \<^verbatim>\<open>trim\<close> removes white space and line terminators at both ends; below 256 these are
  tab, line feed, vertical tab, form feed, carriage return, space and no-break space.
\<close>

definition isWhiteSpace :: "char \<Rightarrow> bool" where
  "isWhiteSpace c = ((of_char c :: nat) \<in> set [9, 10, 11, 12, 13, 32, 160])"

definition trim :: "string \<Rightarrow> string" where
  "trim x = rev (dropWhile isWhiteSpace (rev (dropWhile isWhiteSpace x)))"

subsection \<open>The items of the current user\<close>

text \<open>
  Modelled from the spec: the interface \<^verbatim>\<open>Item\<close> of the item service, which this file
  imports. The fields are those that the component reads; \<open>userId\<close> is the legacy owner
  field. A location is a string or an object with \<^verbatim>\<open>lat\<close> and \<^verbatim>\<open>lng\<close>; the type of
  the numbers is the parameter \<open>'n\<close>.
\<close>

datatype 'n itemLocation = Text string | Coordinates 'n 'n

record 'n Item =
  item_id :: "string option"
  owner :: "string option"
  userId :: "string option"
  itemType :: "string option"
  name :: string
  description :: string
  category :: string
  location :: "'n itemLocation option"
  date :: "string option"
  item_imgURL :: "string option"

text \<open>The parameter of \<^verbatim>\<open>renderUserItems\<close>, of type \<^verbatim>\<open>'lost' | 'found'\<close>.\<close>

datatype typeParam = Lost | Found

fun typeParamString :: "typeParam \<Rightarrow> string" where
  "typeParamString Lost = ''lost''"
| "typeParamString Found = ''found''"

text \<open>
  The callback of the filter (lines 225 to 237). \<open>currentUser\<close> is the user of the
  authentication hook, \<^verbatim>\<open>null\<close> when there is none.
\<close>

definition isUserItemOfType :: "UserData option \<Rightarrow> typeParam \<Rightarrow> 'n Item \<Rightarrow> bool" where
  "isUserItemOfType currentUser tp item =
     (let itemOwner = jsOr (owner item) (userId item);
          currentId = (case currentUser of None \<Rightarrow> None | Some u \<Rightarrow> uid u)
      in if \<not> truthy itemOwner \<or> \<not> truthy currentId then False
         else if jsString itemOwner \<noteq> jsString currentId then False
         else trim (toLowerCase (jsString (jsOr (itemType item) (Some [])))) = typeParamString tp)"

definition filtered :: "UserData option \<Rightarrow> typeParam \<Rightarrow> 'n Item list \<Rightarrow> 'n Item list" where
  "filtered currentUser tp items = filter (isUserItemOfType currentUser tp) items"

text \<open>
  The classification as the specification words it: an item is kept when the normalised
  owner, \<^verbatim>\<open>userId\<close> standing in for an absent owner, equals the normalised user id, and
  the lowercased, trimmed item type equals the parameter.
\<close>

definition classify_spec :: "'n Item list \<Rightarrow> string \<Rightarrow> typeParam \<Rightarrow> 'n Item list" where
  "classify_spec items U T =
     filter (\<lambda>I. jsString (case owner I of None \<Rightarrow> userId I | Some ow \<Rightarrow> Some ow) = jsString (Some U)
               \<and> trim (toLowerCase (jsString (jsOr (itemType I) (Some [])))) = typeParamString T)
       items"

subsection \<open>The location of an item\<close>

text \<open>
  \<^verbatim>\<open>formatLocation\<close> (lines 200 to 212), with the number formatting \<^verbatim>\<open>toFixed(4)\<close> as the
  parameter \<open>toFixed4\<close>.
\<close>

definition formatLocation :: "('n \<Rightarrow> string) \<Rightarrow> 'n itemLocation option \<Rightarrow> string" where
  "formatLocation toFixed4 loc =
     (case loc of
        None \<Rightarrow> ''Unknown location''
      | Some (Text x) \<Rightarrow> if x = [] then ''Unknown location'' else x
      | Some (Coordinates la ln) \<Rightarrow> ''Lat: '' @ toFixed4 la @ '', Lng: '' @ toFixed4 ln)"

text \<open>
  What the card of an item shows after \<^verbatim>\<open>Location:\<close> (line 257, the child
  \<^verbatim>\<open>{item.location}\<close>). The view library renders a string child as it is and nothing for
  \<^verbatim>\<open>undefined\<close>; it refuses an object child with the error "Objects are not valid as a
  React child".
\<close>

datatype renderError = ObjectNotValidAsChild

definition renderedLocation :: "'n Item \<Rightarrow> renderError + string" where
  "renderedLocation item =
     (case location item of
        None \<Rightarrow> Inr []
      | Some (Text x) \<Rightarrow> Inr x
      | Some (Coordinates la ln) \<Rightarrow> Inl ObjectNotValidAsChild)"

text \<open>
  The specification's merge of the server's response: a field of the partial update takes
  the value of the response, every other field keeps its value.
\<close>

definition mergeResponse_spec :: "UserData \<Rightarrow> PartialUserData \<Rightarrow> UserData \<Rightarrow> UserData" where
  "mergeResponse_spec lu upd resp =
     \<lparr>uid = (case upd_uid upd of None \<Rightarrow> uid lu | Some v \<Rightarrow> uid resp),
      email = (case upd_email upd of None \<Rightarrow> email lu | Some v \<Rightarrow> email resp),
      userName = (case upd_userName upd of None \<Rightarrow> userName lu | Some v \<Rightarrow> userName resp),
      password = (case upd_password upd of None \<Rightarrow> password lu | Some v \<Rightarrow> password resp),
      imgURL = (case upd_imgURL upd of None \<Rightarrow> imgURL lu | Some v \<Rightarrow> imgURL resp),
      accessToken = (case upd_accessToken upd of None \<Rightarrow> accessToken lu | Some v \<Rightarrow> accessToken resp),
      refreshToken = (case upd_refreshToken upd of None \<Rightarrow> refreshToken lu | Some v \<Rightarrow> refreshToken resp)\<rparr>"

subsection \<open>Notions used in the statements and proofs\<close>

text \<open>The events of an edit session before it ends: an edit of the form and a commit.\<close>

fun editing :: "event \<Rightarrow> bool" where
  "editing (Edit e) = True"
| "editing Commit = True"
| "editing ev = False"

text \<open>The number of object URLs that the waiting cleanup will revoke.\<close>

definition pending :: "runtime \<Rightarrow> nat" where
  "pending r = (case cleanup r of Some (Some u) \<Rightarrow> 1 | _ \<Rightarrow> 0)"

text \<open>
  The invariant of the object URLs: before the first URL is created nothing is revoked
  or waiting; afterwards the revoked URLs and the one waiting are fewer than the created.
\<close>

definition handlesInv :: "runtime \<Rightarrow> bool" where
  "handlesInv r =
     (if created r = [] then revoked r = [] \<and> tempImageURL (comp r) = None \<and> pending r = 0
      else length (revoked r) + pending r < length (created r))"

section \<open>Properties\<close>

subsection \<open>The form schema\<close>

lemma errorsOf_password:
  "errorsOf Password (profileFormSchema isEmail data) =
     (if 8 \<le> length (form_password data) then [] else [''Password must be at least 8 characters''])"
  by (simp add: errorsOf_def profileFormSchema_def split: option.splits)

text \<open>
  C1 (password field validation). The schema has no issue for the password exactly when
  the password has at least 8 characters. The empty password is therefore not accepted:
  it gets the issue of a short password, and the form library then leaves the state as
  it is and never calls the submit handler.
\<close>

theorem schema_rejects_empty_password:
  "(errorsOf Password (profileFormSchema isEmail data) = []) = (8 \<le> length (form_password data))
   \<and> errorsOf Password (profileFormSchema isEmail (data\<lparr>form_password := []\<rparr>))
       = [''Password must be at least 8 characters'']
   \<and> handleSubmit isEmail svc (s\<lparr>formValues := (formValues s)\<lparr>form_password := []\<rparr>\<rparr>)
       = (s\<lparr>formValues := (formValues s)\<lparr>form_password := []\<rparr>\<rparr>, [])"
proof -
  have "profileFormSchema isEmail ((formValues s)\<lparr>form_password := []\<rparr>) \<noteq> []"
    by (simp add: profileFormSchema_def)
  then show ?thesis
    by (simp add: errorsOf_password handleSubmit_def)
qed

text \<open>
  C7 (profile image type), as the code has it: the schema does not look at the files of
  the image field. Its issues are the same whatever the field holds, and no issue is ever
  reported for the field. The only restriction to JPEG and PNG is the \<^verbatim>\<open>accept\<close>
  attribute of the file input (line 304), a filter of the file picker.
\<close>

theorem schema_ignores_image_type:
  "profileFormSchema isEmail (data\<lparr>form_profileImage := img\<rparr>) = profileFormSchema isEmail data
   \<and> errorsOf ProfileImage (profileFormSchema isEmail data) = []"
  by (simp add: errorsOf_def profileFormSchema_def split: option.splits)

text \<open>
  A form whose image is a PDF file passes the schema (the email test used here asks for an
  at sign).
\<close>

theorem schema_accepts_pdf:
  "profileFormSchema (\<lambda>e. CHR ''@'' \<in> set e)
     \<lparr>form_email = ''a@b.co'', form_userName = ''dana'', form_password = ''newpass1'',
      form_profileImage = Some [\<lparr>fileName = ''cv.pdf'', fileType = ''application/pdf''\<rparr>]\<rparr> = []
   \<and> fileType \<lparr>fileName = ''cv.pdf'', fileType = ''application/pdf''\<rparr>
       \<notin> set [''image/jpeg'', ''image/png'']"
  by (simp add: profileFormSchema_def)

subsection \<open>The submit handler\<close>

text \<open>
  C10 (guard of the submit handler). When the local user is absent, or its id is absent
  or empty, the handler returns the state as it was, the uploading flag included, and
  issues no call.
\<close>

theorem onSubmit_guard:
  assumes "localUser s = None \<or> (\<exists>lu. localUser s = Some lu \<and> \<not> truthy (uid lu))"
  shows "onSubmit svc data s = (s, [])"
  using assms by (auto simp: onSubmit_def truthy_def split: option.splits)

theorem onSubmit_guard_witness:
  "onSubmit \<lparr>uploadImage = (\<lambda>f. None), updateUser = (\<lambda>i p. None), updateAuthState = True\<rparr>
     \<lparr>form_email = ''a@b.co'', form_userName = ''dana'', form_password = ''newpass1'',
        form_profileImage = None\<rparr>
     \<lparr>isEditing = True, isUploading = False,
        localUser = Some \<lparr>uid = Some [], email = ''a@b.co'', userName = ''dan'', password = None,
                          imgURL = Some ''/img/old.png'', accessToken = None, refreshToken = None\<rparr>,
        selectedImage = Some \<lparr>fileName = ''me.png'', fileType = ''image/png''\<rparr>, tempImageURL = Some 0,
        formValues = \<lparr>form_email = ''a@b.co'', form_userName = ''dana'', form_password = ''newpass1'',
        form_profileImage = None\<rparr>\<rparr>
   = (\<lparr>isEditing = True, isUploading = False,
        localUser = Some \<lparr>uid = Some [], email = ''a@b.co'', userName = ''dan'', password = None,
                          imgURL = Some ''/img/old.png'', accessToken = None, refreshToken = None\<rparr>,
        selectedImage = Some \<lparr>fileName = ''me.png'', fileType = ''image/png''\<rparr>, tempImageURL = Some 0,
        formValues = \<lparr>form_email = ''a@b.co'', form_userName = ''dana'', form_password = ''newpass1'',
        form_profileImage = None\<rparr>\<rparr>, [])"
  by (rule onSubmit_guard) (simp add: truthy_def)

lemma sendUpdate_calls:
  "snd (sendUpdate svc lu i upd calls s) =
     calls @ UpdateUser i upd # (case updateUser svc i upd of None \<Rightarrow> [] | Some r \<Rightarrow> [UpdateAuthState])"
  by (simp add: sendUpdate_def split: option.splits)

lemma keysOf_updatedUserData:
  "keysOf (updatedUserData data) =
     [Email, UserName] @ (if 8 \<le> length (form_password data) then [Password] else [])"
  by (auto simp: keysOf_def updatedUserData_def Let_def)

lemma keysOf_updatedUserData_img:
  "keysOf ((updatedUserData data)\<lparr>upd_imgURL := Some url\<rparr>) =
     [Email, UserName] @ (if 8 \<le> length (form_password data) then [Password] else []) @ [ImgURL]"
  by (auto simp: keysOf_def updatedUserData_def Let_def)

text \<open>
  C3 (partial update). When the guard passes and the upload, if there is a staged image,
  does not fail, the handler issues one update call, after the upload call if any. Its
  payload holds the keys \<^verbatim>\<open>email\<close> and \<^verbatim>\<open>userName\<close> with the form's values, the key
  \<^verbatim>\<open>password\<close> exactly when the password has at least 8 characters, and the key
  \<^verbatim>\<open>imgURL\<close> exactly when a staged image was uploaded, and no other key.
\<close>

theorem onSubmit_payload:
  assumes "localUser s = Some lu" and "uid lu = Some i" and "i \<noteq> []"
    and "case selectedImage s of None \<Rightarrow> True | Some f \<Rightarrow> uploadImage svc f \<noteq> None"
  shows "\<exists>p rest. snd (onSubmit svc data s) =
            (case selectedImage s of None \<Rightarrow> [] | Some f \<Rightarrow> [UploadImage f]) @ UpdateUser i p # rest
          \<and> UpdateUser i p \<notin> set rest
          \<and> keysOf p = [Email, UserName]
               @ (if 8 \<le> length (form_password data) then [Password] else [])
               @ (if selectedImage s = None then [] else [ImgURL])
          \<and> upd_email p = Some (form_email data)
          \<and> upd_userName p = Some (form_userName data)
          \<and> upd_password p = (if 8 \<le> length (form_password data) then Some (form_password data) else None)
          \<and> upd_imgURL p = (case selectedImage s of None \<Rightarrow> None | Some f \<Rightarrow> uploadImage svc f)"
proof (cases "selectedImage s")
  case None
  let ?p = "updatedUserData data"
  have "snd (onSubmit svc data s) = [] @ UpdateUser i ?p #
          (case updateUser svc i ?p of None \<Rightarrow> [] | Some r \<Rightarrow> [UpdateAuthState])"
    using assms None by (simp add: onSubmit_def sendUpdate_calls)
  moreover have "UpdateUser i ?p \<notin> set (case updateUser svc i ?p of None \<Rightarrow> [] | Some r \<Rightarrow> [UpdateAuthState])"
    by (simp split: option.splits)
  moreover have "upd_email ?p = Some (form_email data)" "upd_userName ?p = Some (form_userName data)"
    "upd_password ?p = (if 8 \<le> length (form_password data) then Some (form_password data) else None)"
    "upd_imgURL ?p = None"
    by (auto simp: updatedUserData_def Let_def)
  ultimately show ?thesis
    using None keysOf_updatedUserData [of data] by (intro exI [of _ ?p]) auto
next
  case (Some f)
  with assms obtain url where url: "uploadImage svc f = Some url" by auto
  let ?p = "(updatedUserData data)\<lparr>upd_imgURL := Some url\<rparr>"
  have "snd (onSubmit svc data s) = [UploadImage f] @ UpdateUser i ?p #
          (case updateUser svc i ?p of None \<Rightarrow> [] | Some r \<Rightarrow> [UpdateAuthState])"
    using assms Some url by (simp add: onSubmit_def sendUpdate_calls)
  moreover have "UpdateUser i ?p \<notin> set (case updateUser svc i ?p of None \<Rightarrow> [] | Some r \<Rightarrow> [UpdateAuthState])"
    by (simp split: option.splits)
  moreover have "upd_email ?p = Some (form_email data)" "upd_userName ?p = Some (form_userName data)"
    "upd_password ?p = (if 8 \<le> length (form_password data) then Some (form_password data) else None)"
    "upd_imgURL ?p = Some url"
    by (auto simp: updatedUserData_def Let_def)
  ultimately show ?thesis
    using Some url keysOf_updatedUserData_img [where data = data and url = url]
    by (intro exI [of _ ?p]) auto
qed

text \<open>
  The scenario of the specification: the password \<^verbatim>\<open>newpass1\<close> and no staged image give
  a payload with exactly the keys \<^verbatim>\<open>email\<close>, \<^verbatim>\<open>userName\<close> and \<^verbatim>\<open>password\<close>.
\<close>

theorem onSubmit_payload_witness:
  "\<exists>p rest.
     snd (onSubmit \<lparr>uploadImage = (\<lambda>f. None), updateUser = (\<lambda>i p. None), updateAuthState = True\<rparr>
       \<lparr>form_email = ''a@b.co'', form_userName = ''dana'', form_password = ''newpass1'',
        form_profileImage = None\<rparr>
       \<lparr>isEditing = True, isUploading = False,
        localUser = Some \<lparr>uid = Some ''u1'', email = ''a@b.co'', userName = ''dan'', password = None,
                          imgURL = Some ''/img/old.png'', accessToken = None, refreshToken = None\<rparr>,
        selectedImage = None, tempImageURL = None,
        formValues = \<lparr>form_email = ''a@b.co'', form_userName = ''dana'', form_password = ''newpass1'',
        form_profileImage = None\<rparr>\<rparr>)
       = UpdateUser ''u1'' p # rest
     \<and> keysOf p = [Email, UserName, Password]
     \<and> upd_password p = Some ''newpass1'' \<and> upd_imgURL p = None"
  using onSubmit_payload [where svc = "\<lparr>uploadImage = (\<lambda>f. None), updateUser = (\<lambda>i p. None), updateAuthState = True\<rparr>"
      and data = "\<lparr>form_email = ''a@b.co'', form_userName = ''dana'', form_password = ''newpass1'',
        form_profileImage = None\<rparr>"
      and s = "\<lparr>isEditing = True, isUploading = False,
        localUser = Some \<lparr>uid = Some ''u1'', email = ''a@b.co'', userName = ''dan'', password = None,
                          imgURL = Some ''/img/old.png'', accessToken = None, refreshToken = None\<rparr>,
        selectedImage = None, tempImageURL = None,
        formValues = \<lparr>form_email = ''a@b.co'', form_userName = ''dana'', form_password = ''newpass1'',
        form_profileImage = None\<rparr>\<rparr>"
      and i = "''u1''"
      and lu = "\<lparr>uid = Some ''u1'', email = ''a@b.co'', userName = ''dan'', password = None,
                          imgURL = Some ''/img/old.png'', accessToken = None, refreshToken = None\<rparr>"]
  by simp blast

lemma sendUpdate_failed:
  "updateUser svc i upd = None \<Longrightarrow> fst (sendUpdate svc lu i upd calls s) = s\<lparr>isUploading := False\<rparr>"
  by (simp add: sendUpdate_def)

lemma sendUpdate_call_mem:
  "UpdateUser j p \<in> set (snd (sendUpdate svc lu i upd [] s)) \<Longrightarrow> j = i \<and> p = upd"
  "UpdateUser j p \<in> set (snd (sendUpdate svc lu i upd [UploadImage f] s)) \<Longrightarrow> j = i \<and> p = upd"
  by (auto simp: sendUpdate_calls split: option.splits)

text \<open>
  C4 (atomicity of a failed submit). When the upload of the staged image fails, or the
  update call that the handler issued fails, the local user after the handler is the
  local user before it. Moreover nothing but the uploading flag differs from the state
  before: the component remains in the edit mode it was in, with the staged image, and
  the authentication state is not refreshed.
\<close>

theorem onSubmit_failure_atomic:
  assumes "(\<exists>f. selectedImage s = Some f \<and> uploadImage svc f = None)
           \<or> (\<exists>i p. UpdateUser i p \<in> set (snd (onSubmit svc data s)) \<and> updateUser svc i p = None)"
  shows "localUser (fst (onSubmit svc data s)) = localUser s
       \<and> fst (onSubmit svc data s) = s\<lparr>isUploading := isUploading (fst (onSubmit svc data s))\<rparr>
       \<and> UpdateAuthState \<notin> set (snd (onSubmit svc data s))"
  using assms
  by (auto simp: onSubmit_def sendUpdate_failed sendUpdate_calls split: option.splits if_splits
      dest!: sendUpdate_call_mem)

theorem onSubmit_failure_atomic_witness:
  "localUser (fst (onSubmit \<lparr>uploadImage = (\<lambda>f. None), updateUser = (\<lambda>i p. None), updateAuthState = True\<rparr>
       \<lparr>form_email = ''a@b.co'', form_userName = ''dana'', form_password = ''newpass1'',
        form_profileImage = None\<rparr>
       \<lparr>isEditing = True, isUploading = False,
        localUser = Some \<lparr>uid = Some ''u1'', email = ''a@b.co'', userName = ''dan'', password = None,
                          imgURL = Some ''/img/old.png'', accessToken = None, refreshToken = None\<rparr>,
        selectedImage = Some \<lparr>fileName = ''me.png'', fileType = ''image/png''\<rparr>, tempImageURL = Some 0,
        formValues = \<lparr>form_email = ''a@b.co'', form_userName = ''dana'', form_password = ''newpass1'',
        form_profileImage = None\<rparr>\<rparr>))
     = Some \<lparr>uid = Some ''u1'', email = ''a@b.co'', userName = ''dan'', password = None,
                          imgURL = Some ''/img/old.png'', accessToken = None, refreshToken = None\<rparr>
   \<and> selectedImage (fst (onSubmit \<lparr>uploadImage = (\<lambda>f. None), updateUser = (\<lambda>i p. None), updateAuthState = True\<rparr>
       \<lparr>form_email = ''a@b.co'', form_userName = ''dana'', form_password = ''newpass1'',
        form_profileImage = None\<rparr>
       \<lparr>isEditing = True, isUploading = False,
        localUser = Some \<lparr>uid = Some ''u1'', email = ''a@b.co'', userName = ''dan'', password = None,
                          imgURL = Some ''/img/old.png'', accessToken = None, refreshToken = None\<rparr>,
        selectedImage = Some \<lparr>fileName = ''me.png'', fileType = ''image/png''\<rparr>, tempImageURL = Some 0,
        formValues = \<lparr>form_email = ''a@b.co'', form_userName = ''dana'', form_password = ''newpass1'',
        form_profileImage = None\<rparr>\<rparr>))
     = Some \<lparr>fileName = ''me.png'', fileType = ''image/png''\<rparr>"
proof -
  have "fst (onSubmit \<lparr>uploadImage = (\<lambda>f. None), updateUser = (\<lambda>i p. None), updateAuthState = True\<rparr>
       \<lparr>form_email = ''a@b.co'', form_userName = ''dana'', form_password = ''newpass1'',
        form_profileImage = None\<rparr>
       \<lparr>isEditing = True, isUploading = False,
        localUser = Some \<lparr>uid = Some ''u1'', email = ''a@b.co'', userName = ''dan'', password = None,
                          imgURL = Some ''/img/old.png'', accessToken = None, refreshToken = None\<rparr>,
        selectedImage = Some \<lparr>fileName = ''me.png'', fileType = ''image/png''\<rparr>, tempImageURL = Some 0,
        formValues = \<lparr>form_email = ''a@b.co'', form_userName = ''dana'', form_password = ''newpass1'',
        form_profileImage = None\<rparr>\<rparr>)
     = \<lparr>isEditing = True, isUploading = False,
        localUser = Some \<lparr>uid = Some ''u1'', email = ''a@b.co'', userName = ''dan'', password = None,
                          imgURL = Some ''/img/old.png'', accessToken = None, refreshToken = None\<rparr>,
        selectedImage = Some \<lparr>fileName = ''me.png'', fileType = ''image/png''\<rparr>, tempImageURL = Some 0,
        formValues = \<lparr>form_email = ''a@b.co'', form_userName = ''dana'', form_password = ''newpass1'',
        form_profileImage = None\<rparr>\<rparr>\<lparr>isUploading := False\<rparr>"
    by (simp add: onSubmit_def)
  moreover have "localUser (fst (onSubmit \<lparr>uploadImage = (\<lambda>f. None), updateUser = (\<lambda>i p. None), updateAuthState = True\<rparr>
       \<lparr>form_email = ''a@b.co'', form_userName = ''dana'', form_password = ''newpass1'',
        form_profileImage = None\<rparr>
       \<lparr>isEditing = True, isUploading = False,
        localUser = Some \<lparr>uid = Some ''u1'', email = ''a@b.co'', userName = ''dan'', password = None,
                          imgURL = Some ''/img/old.png'', accessToken = None, refreshToken = None\<rparr>,
        selectedImage = Some \<lparr>fileName = ''me.png'', fileType = ''image/png''\<rparr>, tempImageURL = Some 0,
        formValues = \<lparr>form_email = ''a@b.co'', form_userName = ''dana'', form_password = ''newpass1'',
        form_profileImage = None\<rparr>\<rparr>))
     = localUser \<lparr>isEditing = True, isUploading = False,
        localUser = Some \<lparr>uid = Some ''u1'', email = ''a@b.co'', userName = ''dan'', password = None,
                          imgURL = Some ''/img/old.png'', accessToken = None, refreshToken = None\<rparr>,
        selectedImage = Some \<lparr>fileName = ''me.png'', fileType = ''image/png''\<rparr>, tempImageURL = Some 0,
        formValues = \<lparr>form_email = ''a@b.co'', form_userName = ''dana'', form_password = ''newpass1'',
        form_profileImage = None\<rparr>\<rparr>"
    using onSubmit_failure_atomic [where svc = "\<lparr>uploadImage = (\<lambda>f. None), updateUser = (\<lambda>i p. None), updateAuthState = True\<rparr>"
      and data = "\<lparr>form_email = ''a@b.co'', form_userName = ''dana'', form_password = ''newpass1'',
        form_profileImage = None\<rparr>"
      and s = "\<lparr>isEditing = True, isUploading = False,
        localUser = Some \<lparr>uid = Some ''u1'', email = ''a@b.co'', userName = ''dan'', password = None,
                          imgURL = Some ''/img/old.png'', accessToken = None, refreshToken = None\<rparr>,
        selectedImage = Some \<lparr>fileName = ''me.png'', fileType = ''image/png''\<rparr>, tempImageURL = Some 0,
        formValues = \<lparr>form_email = ''a@b.co'', form_userName = ''dana'', form_password = ''newpass1'',
        form_profileImage = None\<rparr>\<rparr>"]
    by simp
  ultimately show ?thesis by simp
qed

lemma mergeUser_fields:
  "uid (mergeUser lu p) = (case upd_uid p of None \<Rightarrow> uid lu | Some v \<Rightarrow> Some v)"
  "email (mergeUser lu p) = (case upd_email p of None \<Rightarrow> email lu | Some v \<Rightarrow> v)"
  "userName (mergeUser lu p) = (case upd_userName p of None \<Rightarrow> userName lu | Some v \<Rightarrow> v)"
  "password (mergeUser lu p) = (case upd_password p of None \<Rightarrow> password lu | Some v \<Rightarrow> Some v)"
  "imgURL (mergeUser lu p) = (case upd_imgURL p of None \<Rightarrow> imgURL lu
                    | Some v \<Rightarrow> if v \<noteq> [] then Some v else imgURL lu)"
  "accessToken (mergeUser lu p) = (case upd_accessToken p of None \<Rightarrow> accessToken lu | Some v \<Rightarrow> Some v)"
  "refreshToken (mergeUser lu p) = (case upd_refreshToken p of None \<Rightarrow> refreshToken lu | Some v \<Rightarrow> Some v)"
  by (simp_all add: mergeUser_def)

lemma updatedUserData_fields:
  "upd_uid (updatedUserData data) = None"
  "upd_email (updatedUserData data) = Some (form_email data)"
  "upd_userName (updatedUserData data) = Some (form_userName data)"
  "upd_password (updatedUserData data) =
     (if 8 \<le> length (form_password data) then Some (form_password data) else None)"
  "upd_imgURL (updatedUserData data) = None"
  "upd_accessToken (updatedUserData data) = None"
  "upd_refreshToken (updatedUserData data) = None"
  by (auto simp: updatedUserData_def Let_def)

lemma sendUpdate_success:
  "updateUser svc i upd = Some resp \<Longrightarrow>
   localUser (fst (sendUpdate svc lu i upd calls s)) = Some (mergeUser lu upd)"
  by (simp add: sendUpdate_def)

lemma onSubmit_success_shape:
  assumes "localUser s = Some lu"
    and "UpdateUser i p \<in> set (snd (onSubmit svc data s))"
    and "updateUser svc i p = Some resp"
  shows "localUser (fst (onSubmit svc data s)) = Some (mergeUser lu p)
       \<and> (p = updatedUserData data \<and> selectedImage s = None
          \<or> (\<exists>url. p = (updatedUserData data)\<lparr>upd_imgURL := Some url\<rparr>) \<and> selectedImage s \<noteq> None)"
proof (cases "uid lu")
  case None
  with assms show ?thesis by (simp add: onSubmit_def)
next
  case (Some j)
  show ?thesis
  proof (cases "j = []")
    case True
    with assms Some show ?thesis by (simp add: onSubmit_def)
  next
    case False
    show ?thesis
    proof (cases "selectedImage s")
      case None
      with assms Some False
      have mem: "UpdateUser i p \<in> set (snd (sendUpdate svc lu j (updatedUserData data) [] s))"
        and eq: "onSubmit svc data s = sendUpdate svc lu j (updatedUserData data) [] s"
        by (simp_all add: onSubmit_def)
      from sendUpdate_call_mem(1) [OF mem] have "i = j" "p = updatedUserData data" by simp_all
      with assms(3) eq None show ?thesis by (simp add: sendUpdate_success)
    next
      case (Some f)
      note img = this
      show ?thesis
      proof (cases "uploadImage svc f")
        case None
        with assms \<open>uid lu = Some j\<close> False img show ?thesis by (simp add: onSubmit_def)
      next
        case (Some url)
        with assms \<open>uid lu = Some j\<close> False img
        have mem: "UpdateUser i p \<in> set (snd (sendUpdate svc lu j ((updatedUserData data)\<lparr>upd_imgURL := Some url\<rparr>) [UploadImage f] s))"
          and eq: "onSubmit svc data s = sendUpdate svc lu j ((updatedUserData data)\<lparr>upd_imgURL := Some url\<rparr>) [UploadImage f] s"
          by (simp_all add: onSubmit_def)
        from sendUpdate_call_mem(2) [OF mem]
        have "i = j" "p = (updatedUserData data)\<lparr>upd_imgURL := Some url\<rparr>" by simp_all
        with assms(3) eq img show ?thesis by (auto simp: sendUpdate_success)
      qed
    qed
  qed
qed

lemma schema_valid:
  assumes "profileFormSchema isEmail data = []"
  shows "isEmail (form_email data)" "3 \<le> length (form_userName data)" "8 \<le> length (form_password data)"
  using assms by (auto simp: profileFormSchema_def split: if_splits)

lemma sendUpdate_refresh_called:
  "updateUser svc i upd = Some resp \<Longrightarrow> UpdateAuthState \<in> set (snd (sendUpdate svc lu i upd calls s))"
  by (simp add: sendUpdate_def)

lemma onSubmit_refresh_called:
  assumes "UpdateUser i p \<in> set (snd (onSubmit svc data s))" and "updateUser svc i p = Some resp"
  shows "UpdateAuthState \<in> set (snd (onSubmit svc data s))"
  using assms
  by (auto simp: onSubmit_def sendUpdate_refresh_called split: option.splits if_splits
      dest!: sendUpdate_call_mem)

text \<open>
  C5 (merge on success), as the code has it. On a successful submit of a valid form the
  handler sets the local user to the one before with the partial update that was sent
  laid over it; the server's response is logged and not used. The id and the tokens,
  which the partial update never holds, keep their values; the email, the user name and
  the password are those of the form; the avatar URL keeps its value unless an image was
  uploaded (and also when the uploaded URL is empty). With no staged image the new local
  user is the one before with the form's email, user name and password, the avatar URL
  untouched. This local user stays when the refresh of the authentication state fails or
  delivers no user; a current user that the refresh delivers replaces it.
\<close>

theorem handleSubmit_success_merge:
  assumes "profileFormSchema isEmail (formValues s) = []"
    and "localUser s = Some lu"
    and "UpdateUser i p \<in> set (snd (handleSubmit isEmail svc s))"
    and "updateUser svc i p = Some resp"
  shows "\<exists>u. localUser (fst (handleSubmit isEmail svc s)) = Some u
     \<and> uid u = uid lu \<and> accessToken u = accessToken lu \<and> refreshToken u = refreshToken lu
     \<and> email u = form_email (formValues s) \<and> userName u = form_userName (formValues s)
     \<and> password u = Some (form_password (formValues s))
     \<and> imgURL u = (case upd_imgURL p of None \<Rightarrow> imgURL lu
                    | Some v \<Rightarrow> if v \<noteq> [] then Some v else imgURL lu)
     \<and> (upd_imgURL p = None) = (selectedImage s = None)
     \<and> (if selectedImage s = None
        then u = lu\<lparr>email := form_email (formValues s), userName := form_userName (formValues s),
                    password := Some (form_password (formValues s))\<rparr>
        else True)
     \<and> localUser (submitAndRefresh isEmail svc None s) = Some u
     \<and> localUser (submitAndRefresh isEmail svc (Some cu) s) = (if updateAuthState svc then Some cu else Some u)"
proof -
  let ?data = "formValues s"
  have hs: "handleSubmit isEmail svc s = onSubmit svc ?data s"
    using assms(1) by (simp add: handleSubmit_def)
  have pw: "8 \<le> length (form_password ?data)"
    using schema_valid(3) [OF assms(1)] .
  have mem: "UpdateUser i p \<in> set (snd (onSubmit svc ?data s))"
    using assms(3) hs by simp
  from onSubmit_success_shape [OF assms(2) mem assms(4)]
  have u: "localUser (fst (onSubmit svc ?data s)) = Some (mergeUser lu p)"
    and p: "p = updatedUserData ?data \<and> selectedImage s = None
          \<or> (\<exists>url. p = (updatedUserData ?data)\<lparr>upd_imgURL := Some url\<rparr>) \<and> selectedImage s \<noteq> None"
    by simp_all
  from p pw have fields: "upd_uid p = None" "upd_accessToken p = None" "upd_refreshToken p = None"
    "upd_email p = Some (form_email ?data)" "upd_userName p = Some (form_userName ?data)"
    "upd_password p = Some (form_password ?data)"
    by (auto simp: updatedUserData_fields)
  from p have img: "(upd_imgURL p = None) = (selectedImage s = None)"
    by (auto simp: updatedUserData_fields)
  have special: "mergeUser lu p = lu\<lparr>email := form_email ?data, userName := form_userName ?data,
                    password := Some (form_password ?data)\<rparr>"
    if "selectedImage s = None"
  proof -
    from p that have "p = updatedUserData ?data" by auto
    with pw show ?thesis by (simp add: mergeUser_def updatedUserData_fields)
  qed
  have called: "UpdateAuthState \<in> set (snd (onSubmit svc ?data s))"
    using onSubmit_refresh_called [OF mem assms(4)] .
  have r0: "localUser (submitAndRefresh isEmail svc None s) = Some (mergeUser lu p)"
    using u hs by (simp add: submitAndRefresh_def currentUserEffect_def)
  have r1: "localUser (submitAndRefresh isEmail svc (Some cu) s)
            = (if updateAuthState svc then Some cu else Some (mergeUser lu p))"
    using u hs called by (simp add: submitAndRefresh_def currentUserEffect_def)
  show ?thesis
    using u hs fields img special r0 r1 by (simp add: mergeUser_fields)
qed

text \<open>
  The merge law of the specification with the password \<^verbatim>\<open>newpass1\<close>: a valid form, no
  staged image. The avatar URL is untouched, and a user that the refresh delivers
  replaces the local user.
\<close>

theorem handleSubmit_success_merge_witness:
  "localUser (fst (handleSubmit (\<lambda>e. CHR ''@'' \<in> set e) \<lparr>uploadImage = (\<lambda>f. None), updateUser = (\<lambda>i p. Some \<lparr>uid = Some ''u1'', email = ''new@b.co'', userName = ''dana'', password = None, imgURL = Some ''/img/old.png'', accessToken = None, refreshToken = None\<rparr>), updateAuthState = True\<rparr>
      \<lparr>isEditing = True, isUploading = False, localUser = Some \<lparr>uid = Some ''u1'', email = ''a@b.co'', userName = ''dan'', password = None, imgURL = Some ''/img/old.png'', accessToken = None, refreshToken = None\<rparr>, selectedImage = None, tempImageURL = None, formValues = \<lparr>form_email = ''New@b.co'', form_userName = ''dana'', form_password = ''newpass1'', form_profileImage = None\<rparr>\<rparr>))
   = Some \<lparr>uid = Some ''u1'', email = ''New@b.co'', userName = ''dana'', password = Some ''newpass1'', imgURL = Some ''/img/old.png'', accessToken = None, refreshToken = None\<rparr>
   \<and> localUser (submitAndRefresh (\<lambda>e. CHR ''@'' \<in> set e) \<lparr>uploadImage = (\<lambda>f. None), updateUser = (\<lambda>i p. Some \<lparr>uid = Some ''u1'', email = ''new@b.co'', userName = ''dana'', password = None, imgURL = Some ''/img/old.png'', accessToken = None, refreshToken = None\<rparr>), updateAuthState = True\<rparr>
        (Some \<lparr>uid = Some ''u1'', email = ''new@b.co'', userName = ''dana'', password = None, imgURL = Some ''/img/old.png'', accessToken = None, refreshToken = None\<rparr>)
        \<lparr>isEditing = True, isUploading = False, localUser = Some \<lparr>uid = Some ''u1'', email = ''a@b.co'', userName = ''dan'', password = None, imgURL = Some ''/img/old.png'', accessToken = None, refreshToken = None\<rparr>, selectedImage = None, tempImageURL = None, formValues = \<lparr>form_email = ''New@b.co'', form_userName = ''dana'', form_password = ''newpass1'', form_profileImage = None\<rparr>\<rparr>)
   = Some \<lparr>uid = Some ''u1'', email = ''new@b.co'', userName = ''dana'', password = None, imgURL = Some ''/img/old.png'', accessToken = None, refreshToken = None\<rparr>"
proof -
  have valid: "profileFormSchema (\<lambda>e. CHR ''@'' \<in> set e) (formValues \<lparr>isEditing = True, isUploading = False, localUser = Some \<lparr>uid = Some ''u1'', email = ''a@b.co'', userName = ''dan'', password = None, imgURL = Some ''/img/old.png'', accessToken = None, refreshToken = None\<rparr>, selectedImage = None, tempImageURL = None, formValues = \<lparr>form_email = ''New@b.co'', form_userName = ''dana'', form_password = ''newpass1'', form_profileImage = None\<rparr>\<rparr>) = []"
    by (simp add: profileFormSchema_def)
  have "UpdateUser ''u1'' (updatedUserData \<lparr>form_email = ''New@b.co'', form_userName = ''dana'', form_password = ''newpass1'', form_profileImage = None\<rparr>)
          \<in> set (snd (handleSubmit (\<lambda>e. CHR ''@'' \<in> set e) \<lparr>uploadImage = (\<lambda>f. None), updateUser = (\<lambda>i p. Some \<lparr>uid = Some ''u1'', email = ''new@b.co'', userName = ''dana'', password = None, imgURL = Some ''/img/old.png'', accessToken = None, refreshToken = None\<rparr>), updateAuthState = True\<rparr>
      \<lparr>isEditing = True, isUploading = False, localUser = Some \<lparr>uid = Some ''u1'', email = ''a@b.co'', userName = ''dan'', password = None, imgURL = Some ''/img/old.png'', accessToken = None, refreshToken = None\<rparr>, selectedImage = None, tempImageURL = None, formValues = \<lparr>form_email = ''New@b.co'', form_userName = ''dana'', form_password = ''newpass1'', form_profileImage = None\<rparr>\<rparr>))"
    by (simp add: handleSubmit_def profileFormSchema_def onSubmit_def sendUpdate_def)
  from handleSubmit_success_merge [where lu = "\<lparr>uid = Some ''u1'', email = ''a@b.co'', userName = ''dan'', password = None, imgURL = Some ''/img/old.png'', accessToken = None, refreshToken = None\<rparr>" and resp = "\<lparr>uid = Some ''u1'', email = ''new@b.co'', userName = ''dana'', password = None, imgURL = Some ''/img/old.png'', accessToken = None, refreshToken = None\<rparr>"
      and cu = "\<lparr>uid = Some ''u1'', email = ''new@b.co'', userName = ''dana'', password = None, imgURL = Some ''/img/old.png'', accessToken = None, refreshToken = None\<rparr>", OF valid _ this]
  show ?thesis by auto
qed

text \<open>
  A valid form sends the email \<^verbatim>\<open>New@b.co\<close> and the server answers with the email in
  lower case; the refresh of the authentication state fails. The local user holds the
  email of the form, not that of the response, so the response is not what is merged.
\<close>

theorem response_not_merged:
  "profileFormSchema (\<lambda>e. CHR ''@'' \<in> set e) \<lparr>form_email = ''New@b.co'', form_userName = ''dana'', form_password = ''newpass1'', form_profileImage = None\<rparr> = []
   \<and> localUser (submitAndRefresh (\<lambda>e. CHR ''@'' \<in> set e) \<lparr>uploadImage = (\<lambda>f. None), updateUser = (\<lambda>i p. Some \<lparr>uid = Some ''u1'', email = ''new@b.co'', userName = ''dana'', password = None, imgURL = Some ''/img/old.png'', accessToken = None, refreshToken = None\<rparr>), updateAuthState = False\<rparr> None
      \<lparr>isEditing = True, isUploading = False, localUser = Some \<lparr>uid = Some ''u1'', email = ''a@b.co'', userName = ''dan'', password = None, imgURL = Some ''/img/old.png'', accessToken = None, refreshToken = None\<rparr>, selectedImage = None, tempImageURL = None, formValues = \<lparr>form_email = ''New@b.co'', form_userName = ''dana'', form_password = ''newpass1'', form_profileImage = None\<rparr>\<rparr>)
     = Some \<lparr>uid = Some ''u1'', email = ''New@b.co'', userName = ''dana'', password = Some ''newpass1'', imgURL = Some ''/img/old.png'', accessToken = None, refreshToken = None\<rparr>
   \<and> updateUser \<lparr>uploadImage = (\<lambda>f. None), updateUser = (\<lambda>i p. Some \<lparr>uid = Some ''u1'', email = ''new@b.co'', userName = ''dana'', password = None, imgURL = Some ''/img/old.png'', accessToken = None, refreshToken = None\<rparr>), updateAuthState = False\<rparr> ''u1'' (updatedUserData \<lparr>form_email = ''New@b.co'', form_userName = ''dana'', form_password = ''newpass1'', form_profileImage = None\<rparr>)
     = Some \<lparr>uid = Some ''u1'', email = ''new@b.co'', userName = ''dana'', password = None, imgURL = Some ''/img/old.png'', accessToken = None, refreshToken = None\<rparr>
   \<and> mergeResponse_spec \<lparr>uid = Some ''u1'', email = ''a@b.co'', userName = ''dan'', password = None, imgURL = Some ''/img/old.png'', accessToken = None, refreshToken = None\<rparr> (updatedUserData \<lparr>form_email = ''New@b.co'', form_userName = ''dana'', form_password = ''newpass1'', form_profileImage = None\<rparr>)
        \<lparr>uid = Some ''u1'', email = ''new@b.co'', userName = ''dana'', password = None, imgURL = Some ''/img/old.png'', accessToken = None, refreshToken = None\<rparr>
     = \<lparr>uid = Some ''u1'', email = ''new@b.co'', userName = ''dana'', password = None,
        imgURL = Some ''/img/old.png'', accessToken = None, refreshToken = None\<rparr>
   \<and> localUser (submitAndRefresh (\<lambda>e. CHR ''@'' \<in> set e) \<lparr>uploadImage = (\<lambda>f. None), updateUser = (\<lambda>i p. Some \<lparr>uid = Some ''u1'', email = ''new@b.co'', userName = ''dana'', password = None, imgURL = Some ''/img/old.png'', accessToken = None, refreshToken = None\<rparr>), updateAuthState = False\<rparr> None
      \<lparr>isEditing = True, isUploading = False, localUser = Some \<lparr>uid = Some ''u1'', email = ''a@b.co'', userName = ''dan'', password = None, imgURL = Some ''/img/old.png'', accessToken = None, refreshToken = None\<rparr>, selectedImage = None, tempImageURL = None, formValues = \<lparr>form_email = ''New@b.co'', form_userName = ''dana'', form_password = ''newpass1'', form_profileImage = None\<rparr>\<rparr>)
     \<noteq> Some (mergeResponse_spec \<lparr>uid = Some ''u1'', email = ''a@b.co'', userName = ''dan'', password = None, imgURL = Some ''/img/old.png'', accessToken = None, refreshToken = None\<rparr> (updatedUserData \<lparr>form_email = ''New@b.co'', form_userName = ''dana'', form_password = ''newpass1'', form_profileImage = None\<rparr>)
        \<lparr>uid = Some ''u1'', email = ''new@b.co'', userName = ''dana'', password = None, imgURL = Some ''/img/old.png'', accessToken = None, refreshToken = None\<rparr>)"
  by (simp add: submitAndRefresh_def handleSubmit_def profileFormSchema_def onSubmit_def
      sendUpdate_def mergeUser_def mergeResponse_spec_def updatedUserData_def)

subsection \<open>Cancel\<close>

lemma applyEdit_localUser: "localUser (applyEdit e s) = localUser s"
  by (cases e) simp_all

lemma imageEffect_localUser: "localUser (comp (imageEffect r)) = localUser (comp r)"
  by (simp add: imageEffect_def runCleanup_def Let_def split: option.splits list.splits)

lemma run_editing_localUser:
  "list_all editing evs \<Longrightarrow> localUser (comp (run isEmail r evs)) = localUser (comp r)"
  unfolding run_def
proof (induction evs arbitrary: r)
  case Nil
  then show ?case by simp
next
  case (Cons ev evs)
  then have "localUser (comp (step isEmail r ev)) = localUser (comp r)"
    by (cases ev) (simp_all add: applyEdit_localUser imageEffect_localUser)
  with Cons show ?case by simp
qed

text \<open>
  C8 (cancel and the staged image). After the edit mode is entered and any sequence of
  edits of the form, picks of an image file and commits, cancel leaves the local user as
  it was before the edit mode was entered, and it stays so through the commits that
  follow. Right after cancel there is no selected image and no preview URL. But cancel
  does not reset the image field of the form: when a file is picked and the effect last
  ran in a render that held a preview URL, the commit that follows cancel runs the effect
  again, and the picked file is selected again with a new preview URL. The staged image
  is not cleared.
\<close>

theorem cancel_restages_image:
  assumes "list_all editing evs"
    and "r' = run isEmail (step isEmail r EnterEdit) evs"
    and "form_profileImage (formValues (comp r')) = Some (f # fs)"
    and "lastDeps r' \<noteq> Some (Some (f # fs), None)"
  shows "localUser (comp (run isEmail (step isEmail r' Cancel) (replicate n Commit))) = localUser (comp r)
       \<and> selectedImage (comp (step isEmail r' Cancel)) = None
       \<and> tempImageURL (comp (step isEmail r' Cancel)) = None
       \<and> selectedImage (comp (step isEmail (step isEmail r' Cancel) Commit)) = Some f
       \<and> tempImageURL (comp (step isEmail (step isEmail r' Cancel) Commit)) = Some (length (created r'))"
proof -
  have before: "localUser (comp r') = localUser (comp r)"
    using run_editing_localUser [OF assms(1), of isEmail "step isEmail r EnterEdit"] assms(2)
    by (simp add: enterEdit_def)
  have "list_all editing (replicate n Commit)"
    by (simp add: list_all_iff)
  from run_editing_localUser [OF this]
  have "localUser (comp (run isEmail (step isEmail r' Cancel) (replicate n Commit)))
        = localUser (comp (step isEmail r' Cancel))" .
  with before have frame: "localUser (comp (run isEmail (step isEmail r' Cancel) (replicate n Commit)))
        = localUser (comp r)"
    by (simp add: handleCancelEdit_def Let_def)
  have cleared: "selectedImage (comp (step isEmail r' Cancel)) = None"
    "tempImageURL (comp (step isEmail r' Cancel)) = None"
    by (simp_all add: handleCancelEdit_def Let_def)
  have img: "form_profileImage (formValues (comp (step isEmail r' Cancel))) = Some (f # fs)"
    using assms(3) by (simp add: handleCancelEdit_def Let_def split: option.splits)
  have deps: "lastDeps (step isEmail r' Cancel) \<noteq> Some (Some (f # fs), None)"
    using assms(4) by simp
  have cr: "created (runCleanup (step isEmail r' Cancel)) = created r'"
    by (simp add: runCleanup_def split: option.splits)
  have again: "selectedImage (comp (imageEffect (step isEmail r' Cancel))) = Some f"
    "tempImageURL (comp (imageEffect (step isEmail r' Cancel))) = Some (length (created r'))"
    using img deps cleared cr by (simp_all add: imageEffect_def Let_def)
  show ?thesis
    using frame cleared again by simp
qed

text \<open>
  A session: a file is picked and two commits follow, then cancel. The commit after
  cancel selects the file again.
\<close>

theorem cancel_restages_image_witness:
  "localUser (comp (run (\<lambda>e. CHR ''@'' \<in> set e) (step (\<lambda>e. CHR ''@'' \<in> set e) (run (\<lambda>e. CHR ''@'' \<in> set e) (step (\<lambda>e. CHR ''@'' \<in> set e) (mounted \<lparr>uid = Some ''u1'', email = ''a@b.co'', userName = ''dan'', password = None, imgURL = Some ''/img/old.png'', accessToken = None, refreshToken = None\<rparr>) EnterEdit) [Edit (PickFiles [\<lparr>fileName = ''me.png'', fileType = ''image/png''\<rparr>]), Commit, Commit]) Cancel) (replicate 1 Commit))) = Some \<lparr>uid = Some ''u1'', email = ''a@b.co'', userName = ''dan'', password = None, imgURL = Some ''/img/old.png'', accessToken = None, refreshToken = None\<rparr>
   \<and> selectedImage (comp (step (\<lambda>e. CHR ''@'' \<in> set e) (run (\<lambda>e. CHR ''@'' \<in> set e) (step (\<lambda>e. CHR ''@'' \<in> set e) (mounted \<lparr>uid = Some ''u1'', email = ''a@b.co'', userName = ''dan'', password = None, imgURL = Some ''/img/old.png'', accessToken = None, refreshToken = None\<rparr>) EnterEdit) [Edit (PickFiles [\<lparr>fileName = ''me.png'', fileType = ''image/png''\<rparr>]), Commit, Commit]) Cancel)) = None
   \<and> selectedImage (comp (step (\<lambda>e. CHR ''@'' \<in> set e) (step (\<lambda>e. CHR ''@'' \<in> set e) (run (\<lambda>e. CHR ''@'' \<in> set e) (step (\<lambda>e. CHR ''@'' \<in> set e) (mounted \<lparr>uid = Some ''u1'', email = ''a@b.co'', userName = ''dan'', password = None, imgURL = Some ''/img/old.png'', accessToken = None, refreshToken = None\<rparr>) EnterEdit) [Edit (PickFiles [\<lparr>fileName = ''me.png'', fileType = ''image/png''\<rparr>]), Commit, Commit]) Cancel) Commit))
     = Some \<lparr>fileName = ''me.png'', fileType = ''image/png''\<rparr>
   \<and> tempImageURL (comp (step (\<lambda>e. CHR ''@'' \<in> set e) (step (\<lambda>e. CHR ''@'' \<in> set e) (run (\<lambda>e. CHR ''@'' \<in> set e) (step (\<lambda>e. CHR ''@'' \<in> set e) (mounted \<lparr>uid = Some ''u1'', email = ''a@b.co'', userName = ''dan'', password = None, imgURL = Some ''/img/old.png'', accessToken = None, refreshToken = None\<rparr>) EnterEdit) [Edit (PickFiles [\<lparr>fileName = ''me.png'', fileType = ''image/png''\<rparr>]), Commit, Commit]) Cancel) Commit)) = Some 2"
proof -
  have ed: "list_all editing [Edit (PickFiles [\<lparr>fileName = ''me.png'', fileType = ''image/png''\<rparr>]), Commit, Commit]"
    by simp
  have img: "form_profileImage (formValues (comp (run (\<lambda>e. CHR ''@'' \<in> set e) (step (\<lambda>e. CHR ''@'' \<in> set e) (mounted \<lparr>uid = Some ''u1'', email = ''a@b.co'', userName = ''dan'', password = None, imgURL = Some ''/img/old.png'', accessToken = None, refreshToken = None\<rparr>) EnterEdit) [Edit (PickFiles [\<lparr>fileName = ''me.png'', fileType = ''image/png''\<rparr>]), Commit, Commit])))
             = Some (\<lparr>fileName = ''me.png'', fileType = ''image/png''\<rparr> # [])"
    by (simp add: run_def mounted_def imageEffect_def runCleanup_def enterEdit_def Let_def)
  have deps: "lastDeps (run (\<lambda>e. CHR ''@'' \<in> set e) (step (\<lambda>e. CHR ''@'' \<in> set e) (mounted \<lparr>uid = Some ''u1'', email = ''a@b.co'', userName = ''dan'', password = None, imgURL = Some ''/img/old.png'', accessToken = None, refreshToken = None\<rparr>) EnterEdit) [Edit (PickFiles [\<lparr>fileName = ''me.png'', fileType = ''image/png''\<rparr>]), Commit, Commit])
              \<noteq> Some (Some (\<lparr>fileName = ''me.png'', fileType = ''image/png''\<rparr> # []), None)"
    by (simp add: run_def mounted_def imageEffect_def runCleanup_def enterEdit_def Let_def)
  have cr: "length (created (run (\<lambda>e. CHR ''@'' \<in> set e) (step (\<lambda>e. CHR ''@'' \<in> set e) (mounted \<lparr>uid = Some ''u1'', email = ''a@b.co'', userName = ''dan'', password = None, imgURL = Some ''/img/old.png'', accessToken = None, refreshToken = None\<rparr>) EnterEdit) [Edit (PickFiles [\<lparr>fileName = ''me.png'', fileType = ''image/png''\<rparr>]), Commit, Commit])) = 2"
    by (simp add: run_def mounted_def imageEffect_def runCleanup_def enterEdit_def Let_def)
  from cancel_restages_image [OF ed refl img deps, where n = 1] cr
  show ?thesis by (simp add: mounted_def)
qed

subsection \<open>The effect that stages a picked image\<close>

lemma onSubmit_tempImageURL:
  "tempImageURL (fst (onSubmit svc data s)) = None \<or> tempImageURL (fst (onSubmit svc data s)) = tempImageURL s"
  by (simp add: onSubmit_def sendUpdate_def split: option.splits)

lemma handleSubmit_tempImageURL:
  "tempImageURL (fst (handleSubmit isEmail svc s)) = None
   \<or> tempImageURL (fst (handleSubmit isEmail svc s)) = tempImageURL s"
  using onSubmit_tempImageURL [of svc "formValues s" s] by (simp add: handleSubmit_def)

lemma handlesInv_comp:
  assumes "handlesInv r" and "tempImageURL s = None \<or> tempImageURL s = tempImageURL (comp r)"
  shows "handlesInv (r\<lparr>comp := s\<rparr>)"
  using assms by (auto simp: handlesInv_def pending_def split: if_splits)

lemma applyEdit_tempImageURL: "tempImageURL (applyEdit e s) = tempImageURL s"
  by (cases e) simp_all

lemma handlesInv_imageEffect:
  assumes "handlesInv r"
  shows "handlesInv (imageEffect r)"
proof (cases "lastDeps r = Some (form_profileImage (formValues (comp r)), tempImageURL (comp r))")
  case True
  with assms show ?thesis by (simp add: imageEffect_def Let_def)
next
  case False
  let ?r1 = "(runCleanup r)\<lparr>lastDeps := Some (form_profileImage (formValues (comp r)), tempImageURL (comp r))\<rparr>"
  have r1: "created ?r1 = created r" "comp ?r1 = comp r" "pending ?r1 = 0"
    "length (revoked ?r1) = length (revoked r) + pending r"
    by (auto simp: runCleanup_def pending_def split: option.splits)
  have inv1: "handlesInv ?r1"
    using assms r1 by (simp add: handlesInv_def split: if_splits)
  show ?thesis
  proof (cases "form_profileImage (formValues (comp r))")
    case None
    with False inv1 show ?thesis by (simp add: imageEffect_def Let_def)
  next
    case (Some fl)
    show ?thesis
    proof (cases fl)
      case Nil
      with Some False inv1 show ?thesis by (simp add: imageEffect_def Let_def)
    next
      case (Cons f fs)
      have "imageEffect r =
              ?r1\<lparr>comp := (comp r)\<lparr>selectedImage := Some f, tempImageURL := Some (length (created ?r1))\<rparr>,
                   created := created ?r1 @ [length (created ?r1)],
                   cleanup := Some (tempImageURL (comp r))\<rparr>"
        using Some Cons False by (simp add: imageEffect_def Let_def)
      moreover have "handlesInv \<dots>"
        using inv1 r1 by (auto simp: handlesInv_def pending_def split: if_splits option.splits)
      ultimately show ?thesis by simp
    qed
  qed
qed

lemma handlesInv_step:
  assumes "handlesInv r"
  shows "handlesInv (step isEmail r ev)"
proof (cases ev)
  case (Edit e)
  with assms show ?thesis by (simp add: handlesInv_comp applyEdit_tempImageURL)
next
  case EnterEdit
  with assms show ?thesis by (simp add: handlesInv_comp enterEdit_def)
next
  case Cancel
  with assms show ?thesis by (simp add: handlesInv_comp handleCancelEdit_def Let_def)
next
  case (Submit svc)
  with assms show ?thesis
    using handleSubmit_tempImageURL [of isEmail svc "comp r"] by (simp add: handlesInv_comp)
next
  case Commit
  with assms show ?thesis by (simp add: handlesInv_imageEffect)
qed

lemma handlesInv_foldl:
  "handlesInv r \<Longrightarrow> handlesInv (foldl (step isEmail) r evs)"
  by (induction evs arbitrary: r) (simp_all add: handlesInv_step)

lemma handlesInv_mounted: "handlesInv (mounted u)"
  by (simp add: handlesInv_def mounted_def pending_def)

text \<open>
  C6 (balance of the preview handles). In every session of the mounted component, of
  edits, picks of files, cancels, submits and commits in any order, once an object URL
  has been created there are fewer revoked URLs than created ones: the handles are never
  balanced again.
\<close>

theorem handles_never_balanced:
  assumes "created (run isEmail (mounted u) evs) \<noteq> []"
  shows "length (revoked (run isEmail (mounted u) evs)) < length (created (run isEmail (mounted u) evs))"
proof -
  have "handlesInv (run isEmail (mounted u) evs)"
    unfolding run_def by (rule handlesInv_foldl) (rule handlesInv_mounted)
  with assms show ?thesis
    by (simp add: handlesInv_def)
qed

text \<open>
  A session: a file is picked, three commits follow, then cancel and one more commit.
  Four URLs were created and two revoked.
\<close>

theorem handles_never_balanced_witness:
  "created (run (\<lambda>e. True) (mounted \<lparr>uid = Some ''u1'', email = ''a@b.co'', userName = ''dan'', password = None, imgURL = Some ''/img/old.png'', accessToken = None, refreshToken = None\<rparr>)
      [EnterEdit, Edit (PickFiles [\<lparr>fileName = ''me.png'', fileType = ''image/png''\<rparr>]), Commit, Commit, Commit, Cancel, Commit]) = [0, 1, 2, 3]
   \<and> revoked (run (\<lambda>e. True) (mounted \<lparr>uid = Some ''u1'', email = ''a@b.co'', userName = ''dan'', password = None, imgURL = Some ''/img/old.png'', accessToken = None, refreshToken = None\<rparr>)
      [EnterEdit, Edit (PickFiles [\<lparr>fileName = ''me.png'', fileType = ''image/png''\<rparr>]), Commit, Commit, Commit, Cancel, Commit]) = [0, 1]
   \<and> length (revoked (run (\<lambda>e. True) (mounted \<lparr>uid = Some ''u1'', email = ''a@b.co'', userName = ''dan'', password = None, imgURL = Some ''/img/old.png'', accessToken = None, refreshToken = None\<rparr>)
      [EnterEdit, Edit (PickFiles [\<lparr>fileName = ''me.png'', fileType = ''image/png''\<rparr>]), Commit, Commit, Commit, Cancel, Commit]))
     < length (created (run (\<lambda>e. True) (mounted \<lparr>uid = Some ''u1'', email = ''a@b.co'', userName = ''dan'', password = None, imgURL = Some ''/img/old.png'', accessToken = None, refreshToken = None\<rparr>)
      [EnterEdit, Edit (PickFiles [\<lparr>fileName = ''me.png'', fileType = ''image/png''\<rparr>]), Commit, Commit, Commit, Cancel, Commit]))"
proof -
  have c: "created (run (\<lambda>e. True) (mounted \<lparr>uid = Some ''u1'', email = ''a@b.co'', userName = ''dan'', password = None, imgURL = Some ''/img/old.png'', accessToken = None, refreshToken = None\<rparr>)
      [EnterEdit, Edit (PickFiles [\<lparr>fileName = ''me.png'', fileType = ''image/png''\<rparr>]), Commit, Commit, Commit, Cancel, Commit]) = [0, 1, 2, 3]"
    by (simp add: run_def mounted_def imageEffect_def runCleanup_def enterEdit_def
        handleCancelEdit_def Let_def)
  have r: "revoked (run (\<lambda>e. True) (mounted \<lparr>uid = Some ''u1'', email = ''a@b.co'', userName = ''dan'', password = None, imgURL = Some ''/img/old.png'', accessToken = None, refreshToken = None\<rparr>)
      [EnterEdit, Edit (PickFiles [\<lparr>fileName = ''me.png'', fileType = ''image/png''\<rparr>]), Commit, Commit, Commit, Cancel, Commit]) = [0, 1]"
    by (simp add: run_def mounted_def imageEffect_def runCleanup_def enterEdit_def
        handleCancelEdit_def Let_def)
  have "created (run (\<lambda>e. True) (mounted \<lparr>uid = Some ''u1'', email = ''a@b.co'', userName = ''dan'', password = None, imgURL = Some ''/img/old.png'', accessToken = None, refreshToken = None\<rparr>)
      [EnterEdit, Edit (PickFiles [\<lparr>fileName = ''me.png'', fileType = ''image/png''\<rparr>]), Commit, Commit, Commit, Cancel, Commit]) \<noteq> []"
    using c by simp
  from handles_never_balanced [OF this] c r show ?thesis by simp
qed

subsection \<open>The items of the current user\<close>

lemma trim_lower_examples:
  "trim (toLowerCase ''lost'') = ''lost''" "trim (toLowerCase ''Lost '') = ''lost''"
  by code_simp+

lemma truthy_simps: "truthy None = False" "truthy (Some x) = (x \<noteq> [])"
  by (simp_all add: truthy_def)

lemma jsString_Some: "jsString (Some x) = x"
  by (simp add: jsString_def)

lemma itemType_text:
  "jsString (jsOr (itemType I) (Some [])) = (case itemType I of None \<Rightarrow> [] | Some t \<Rightarrow> t)"
  by (cases "itemType I") (simp_all add: jsOr_def truthy_simps jsString_Some)

lemma isUserItemOfType_iff:
  "isUserItemOfType (Some (u\<lparr>uid := Some U\<rparr>)) T I =
        (U \<noteq> []
         \<and> (owner I = Some U \<or> ((owner I = None \<or> owner I = Some []) \<and> userId I = Some U))
         \<and> trim (toLowerCase (case itemType I of None \<Rightarrow> [] | Some t \<Rightarrow> t)) = typeParamString T)"
proof (cases "truthy (owner I)")
  case True
  then obtain ow where ow: "owner I = Some ow" "ow \<noteq> []"
    by (cases "owner I") (simp_all add: truthy_simps)
  then have "jsOr (owner I) (userId I) = Some ow"
    by (simp add: jsOr_def truthy_simps)
  with ow show ?thesis
    by (auto simp add: isUserItemOfType_def Let_def truthy_simps jsString_Some itemType_text)
next
  case False
  then have own: "owner I = None \<or> owner I = Some []"
    by (cases "owner I") (simp_all add: truthy_simps)
  from False have or: "jsOr (owner I) (userId I) = userId I"
    by (simp add: jsOr_def)
  show ?thesis
  proof (cases "userId I")
    case None
    with or own show ?thesis
      by (auto simp add: isUserItemOfType_def Let_def truthy_simps)
  next
    case (Some w)
    with or own show ?thesis
      by (auto simp add: isUserItemOfType_def Let_def truthy_simps jsString_Some itemType_text)
  qed
qed

lemma isUserItemOfType_no_user:
  "isUserItemOfType None T I = False" "isUserItemOfType (Some (u\<lparr>uid := None\<rparr>)) T I = False"
  by (simp_all add: isUserItemOfType_def Let_def truthy_simps)

text \<open>
  C2 (classification of the items), as the code has it. For a current user with the id
  \<open>U\<close> the filter keeps exactly the items for which \<open>U\<close> is not empty, the owner
  is \<open>U\<close>, or the owner is absent or empty and the legacy \<^verbatim>\<open>userId\<close> is \<open>U\<close>, and
  the lowercased, trimmed item type is the parameter. The items are kept in the order of
  the input. Without a current user, or without its id, nothing is kept.
\<close>

theorem filtered_characterisation:
  "filtered (Some (u\<lparr>uid := Some U\<rparr>)) T items =
     filter (\<lambda>I. U \<noteq> []
               \<and> (owner I = Some U \<or> ((owner I = None \<or> owner I = Some []) \<and> userId I = Some U))
               \<and> trim (toLowerCase (case itemType I of None \<Rightarrow> [] | Some t \<Rightarrow> t)) = typeParamString T)
       items
   \<and> subseq (filtered (Some (u\<lparr>uid := Some U\<rparr>)) T items) items
   \<and> filtered None T items = [] \<and> filtered (Some (u\<lparr>uid := None\<rparr>)) T items = []"
proof -
  have "filtered (Some (u\<lparr>uid := Some U\<rparr>)) T items =
     filter (\<lambda>I. U \<noteq> []
               \<and> (owner I = Some U \<or> ((owner I = None \<or> owner I = Some []) \<and> userId I = Some U))
               \<and> trim (toLowerCase (case itemType I of None \<Rightarrow> [] | Some t \<Rightarrow> t)) = typeParamString T)
       items"
    unfolding filtered_def by (rule filter_cong) (simp_all only: isUserItemOfType_iff)
  moreover have "subseq (filtered (Some (u\<lparr>uid := Some U\<rparr>)) T items) items"
    unfolding filtered_def by (rule subseq_filter_left)
  moreover have "filtered None T items = []" "filtered (Some (u\<lparr>uid := None\<rparr>)) T items = []"
    by (simp_all add: filtered_def isUserItemOfType_no_user)
  ultimately show ?thesis by blast
qed

text \<open>
  An item with an empty owner and the legacy \<^verbatim>\<open>userId\<close> of the current user is kept
  by the filter; the specification's wording, with the fallback for an absent owner only,
  leaves it out.
\<close>

theorem empty_owner_falls_back:
  "filtered (Some \<lparr>uid = Some ''u1'', email = ''a@b.co'', userName = ''dan'', password = None, imgURL = Some ''/img/old.png'', accessToken = None, refreshToken = None\<rparr>) Lost
     [\<lparr>item_id = Some ''i1'', owner = Some [], userId = Some ''u1'', itemType = Some ''lost'', name = ''keys'', description = ''a bunch'', category = ''other'', location = (None :: int itemLocation option), date = None, item_imgURL = None\<rparr>]
   = [\<lparr>item_id = Some ''i1'', owner = Some [], userId = Some ''u1'', itemType = Some ''lost'', name = ''keys'', description = ''a bunch'', category = ''other'', location = (None :: int itemLocation option), date = None, item_imgURL = None\<rparr>]
   \<and> classify_spec
     [\<lparr>item_id = Some ''i1'', owner = Some [], userId = Some ''u1'', itemType = Some ''lost'', name = ''keys'', description = ''a bunch'', category = ''other'', location = (None :: int itemLocation option), date = None, item_imgURL = None\<rparr>] ''u1'' Lost
   = []"
  by (simp add: filtered_def isUserItemOfType_iff [where u = "\<lparr>uid = Some ''u1'', email = ''a@b.co'', userName = ''dan'', password = None, imgURL = Some ''/img/old.png'', accessToken = None, refreshToken = None\<rparr>" and U = "''u1''", simplified]
      classify_spec_def jsString_def trim_lower_examples)

text \<open>The scenario of the specification: the owner \<^verbatim>\<open>u1\<close> and the item type \<^verbatim>\<open>Lost\<close> with a trailing space.\<close>

theorem filtered_characterisation_witness:
  "filtered (Some \<lparr>uid = Some ''u1'', email = ''a@b.co'', userName = ''dan'', password = None, imgURL = Some ''/img/old.png'', accessToken = None, refreshToken = None\<rparr>) Lost
     [\<lparr>item_id = Some ''i1'', owner = Some ''u1'', userId = None, itemType = Some ''Lost '', name = ''keys'', description = ''a bunch'', category = ''other'', location = (None :: int itemLocation option), date = None, item_imgURL = None\<rparr>]
   = [\<lparr>item_id = Some ''i1'', owner = Some ''u1'', userId = None, itemType = Some ''Lost '', name = ''keys'', description = ''a bunch'', category = ''other'', location = (None :: int itemLocation option), date = None, item_imgURL = None\<rparr>]"
  using filtered_characterisation [where u = "\<lparr>uid = Some ''u1'', email = ''a@b.co'', userName = ''dan'', password = None, imgURL = Some ''/img/old.png'', accessToken = None, refreshToken = None\<rparr>" and U = "''u1''" and T = Lost
      and items = "[\<lparr>item_id = Some ''i1'', owner = Some ''u1'', userId = None, itemType = Some ''Lost '', name = ''keys'', description = ''a bunch'', category = ''other'', location = (None :: int itemLocation option), date = None, item_imgURL = None\<rparr>]"]
  by (simp add: trim_lower_examples)

subsection \<open>The location of an item\<close>

text \<open>
  C9 (rendering of the location). The card hands \<^verbatim>\<open>item.location\<close> to the view library
  as it is: a string is shown as it is, but a coordinate object is refused as a child
  and is not shown as the text that \<^verbatim>\<open>formatLocation\<close> computes for it;
  \<^verbatim>\<open>formatLocation\<close> is never called.
\<close>

theorem location_rendered_raw:
  "renderedLocation (item\<lparr>location := Some (Coordinates la ln)\<rparr>) = Inl ObjectNotValidAsChild
   \<and> renderedLocation (item\<lparr>location := Some (Coordinates la ln)\<rparr>)
       \<noteq> Inr (''Lat: '' @ toFixed4 la @ '', Lng: '' @ toFixed4 ln)
   \<and> formatLocation toFixed4 (Some (Coordinates la ln)) = ''Lat: '' @ toFixed4 la @ '', Lng: '' @ toFixed4 ln
   \<and> renderedLocation (item\<lparr>location := Some (Text x)\<rparr>) = Inr x"
  by (simp add: renderedLocation_def formatLocation_def)

end
